theory Spec2Isabelle
  imports Complex_Main
begin

section \<open>The parser driver of verilog-vcd-parser (VCDFileParser)\<close>

text \<open>
  The development embeds the driver class \<^verbatim>\<open>VCDFileParser\<close> (constructor,
  \<^verbatim>\<open>parse_file\<close>, \<^verbatim>\<open>error\<close>, \<^verbatim>\<open>scan_begin\<close>, \<^verbatim>\<open>scan_end\<close>) with explicit
  state passing. The session object is a record, everything outside it that the
  driver touches (the file system, stdin, stderr, the C heap, flex scanner objects)
  is a second record, and a call either returns, terminates the process, or runs
  into undefined behaviour.
\<close>

subsection \<open>Data model\<close>

type_synonym addr = nat

text \<open>
  \<^verbatim>\<open>VCDTime\<close> is declared in VCDTypes.hpp. Time points are modelled as reals and its
  \<^verbatim>\<open>std::numeric_limits\<close> are a parameter of the constructor.
\<close>

type_synonym VCDTime = real

record numeric_limits =
  limits_max :: VCDTime
  limits_lowest :: VCDTime

text \<open>Scope kinds of VCDTypes.hpp; the driver only names \<^verbatim>\<open>VCD_SCOPE_ROOT\<close>.\<close>

datatype VCDScopeType =
  VCD_SCOPE_BEGIN | VCD_SCOPE_FORK | VCD_SCOPE_FUNCTION
  | VCD_SCOPE_MODULE | VCD_SCOPE_TASK | VCD_SCOPE_ROOT

text \<open>
  The members of \<^verbatim>\<open>VCDScope\<close> and \<^verbatim>\<open>VCDFile\<close> that the driver reads or writes.
  A kind that has not been assigned yet is \<open>None\<close>.
\<close>

record VCDScope =
  name :: string
  scope_type :: "VCDScopeType option"
  parent :: "addr option"
  children :: "addr list"

record VCDFile =
  root_scope :: "addr option"
  file_scopes :: "addr list"

text \<open>The free store: \<^verbatim>\<open>new\<close> takes the next address, \<^verbatim>\<open>delete\<close> removes the object.\<close>

record heap =
  vcd_files :: "addr \<rightharpoonup> VCDFile"
  vcd_scopes :: "addr \<rightharpoonup> VCDScope"
  next_addr :: addr

datatype FILE = Stdin | Handle nat

datatype fopen_result = Unreadable string | Readable string

text \<open>The state flex keeps per reentrant scanner (\<^verbatim>\<open>yyscan_t\<close>).\<close>

record yyguts_t =
  yyextra_r :: bool
  yy_flex_debug_r :: int
  yyin_r :: "FILE option"

text \<open>
  The process environment. \<open>fs\<close> says for each path whether \<^verbatim>\<open>fopen(path, "r")\<close>
  succeeds (and with which text) or fails (and with which \<^verbatim>\<open>strerror\<close> text);
  \<open>open_files\<close> holds the handles obtained from \<^verbatim>\<open>fopen\<close> and not yet closed;
  \<open>scanners\<close> the scanner objects that are alive; \<open>stderr\<close> the lines written
  to \<^verbatim>\<open>std::cerr\<close>.
\<close>

record world =
  fs :: "string \<Rightarrow> fopen_result"
  errno_text :: string
  stdin_text :: string
  stdin_open :: bool
  open_files :: "nat \<rightharpoonup> string"
  next_handle :: nat
  scanners :: "nat \<rightharpoonup> yyguts_t"
  next_scanner :: nat
  heap :: heap
  stderr :: "string list"

record position =
  line :: nat
  column :: nat

record location =
  loc_begin :: position
  loc_end :: position

text \<open>The class \<^verbatim>\<open>VCDFileParser\<close>; the stack \<open>scopes\<close> has its top at the head.\<close>

record VCDFileParser =
  filepath :: string
  trace_scanning :: bool
  trace_parsing :: bool
  start_time :: VCDTime
  end_time :: VCDTime
  fh :: "addr option"
  scopes :: "addr list"
  current_time :: VCDTime
  loc :: location
  scanner :: "nat option"
  input_file :: "FILE option"

text \<open>
  How a call ends: it returns a result with the session and the environment as they
  are then, or the process terminates through \<^verbatim>\<open>exit\<close>, or the behaviour is
  undefined (\<^verbatim>\<open>pop\<close> on an empty \<^verbatim>\<open>std::stack\<close>).
\<close>

datatype 'a outcome =
  Returned 'a VCDFileParser world
  | Exited int world
  | Undefined

definition EXIT_FAILURE :: int where
  "EXIT_FAILURE = 1"

subsection \<open>Constructor\<close>

text \<open>
  The constructor assigns the two time bounds, the time cursor, the two debug
  toggles, \<open>scanner\<close> and \<open>input_file\<close>. \<open>filepath\<close>, \<open>scopes\<close> and \<open>loc\<close> are
  default-constructed; \<open>fh\<close> is not initialised, so its initial content \<open>g\<close> is
  arbitrary.
\<close>

definition new_VCDFileParser :: "numeric_limits \<Rightarrow> addr option \<Rightarrow> VCDFileParser" where
  "new_VCDFileParser L g =
     \<lparr> filepath = [],
       trace_scanning = False,
       trace_parsing = False,
       start_time = - limits_max L,
       end_time = limits_max L,
       fh = g,
       scopes = [],
       current_time = 0,
       loc = \<lparr> loc_begin = \<lparr> line = 1, column = 1 \<rparr>, loc_end = \<lparr> line = 1, column = 1 \<rparr> \<rparr>,
       scanner = None,
       input_file = None \<rparr>"

subsection \<open>C library and flex primitives\<close>

definition fopen :: "string \<Rightarrow> world \<Rightarrow> FILE option \<times> world" where
  "fopen p w =
     (case fs w p of
        Unreadable e \<Rightarrow> (None, w\<lparr> errno_text := e \<rparr>)
      | Readable t \<Rightarrow>
          (Some (Handle (next_handle w)),
           w\<lparr> open_files := (open_files w)(next_handle w \<mapsto> p),
              next_handle := Suc (next_handle w) \<rparr>))"

fun fclose :: "FILE \<Rightarrow> world \<Rightarrow> world" where
  "fclose Stdin w = w\<lparr> stdin_open := False \<rparr>"
| "fclose (Handle n) w = w\<lparr> open_files := (open_files w)(n := None) \<rparr>"

definition yylex_init :: "VCDFileParser \<Rightarrow> world \<Rightarrow> VCDFileParser \<times> world" where
  "yylex_init s w =
     (s\<lparr> scanner := Some (next_scanner w) \<rparr>,
      w\<lparr> scanners := (scanners w)(next_scanner w \<mapsto>
             \<lparr> yyextra_r = False, yy_flex_debug_r = 0, yyin_r = None \<rparr>),
         next_scanner := Suc (next_scanner w) \<rparr>)"

definition upd_scanner :: "(yyguts_t \<Rightarrow> yyguts_t) \<Rightarrow> nat option \<Rightarrow> world \<Rightarrow> world" where
  "upd_scanner f y w =
     (case y of
        None \<Rightarrow> w
      | Some k \<Rightarrow>
          (case scanners w k of
             None \<Rightarrow> w
           | Some g \<Rightarrow> w\<lparr> scanners := (scanners w)(k \<mapsto> f g) \<rparr>))"

definition yyset_extra :: "nat option \<Rightarrow> world \<Rightarrow> world" where
  "yyset_extra y w = upd_scanner (\<lambda>g. g\<lparr> yyextra_r := True \<rparr>) y w"

definition yyset_debug :: "int \<Rightarrow> nat option \<Rightarrow> world \<Rightarrow> world" where
  "yyset_debug d y w = upd_scanner (\<lambda>g. g\<lparr> yy_flex_debug_r := d \<rparr>) y w"

definition yyset_in :: "FILE option \<Rightarrow> nat option \<Rightarrow> world \<Rightarrow> world" where
  "yyset_in f y w = upd_scanner (\<lambda>g. g\<lparr> yyin_r := f \<rparr>) y w"

definition yylex_destroy :: "nat \<Rightarrow> world \<Rightarrow> world" where
  "yylex_destroy k w = w\<lparr> scanners := (scanners w)(k := None) \<rparr>"

subsection \<open>Diagnostics\<close>

text \<open>\<^verbatim>\<open>error(const std::string &)\<close>: one line on \<^verbatim>\<open>std::cerr\<close>.\<close>

definition error :: "string \<Rightarrow> world \<Rightarrow> world" where
  "error m w = w\<lparr> stderr := stderr w @ ['' : '' @ m] \<rparr>"

subsection \<open>Opening and closing the input\<close>

definition scan_begin :: "VCDFileParser \<Rightarrow> world \<Rightarrow> unit outcome" where
  "scan_begin s w =
     (case yylex_init s w of
        (s1, w1) \<Rightarrow>
          (let w2 = yyset_extra (scanner s1) w1;
               w3 = yyset_debug (if trace_scanning s1 then 1 else 0) (scanner s1) w2
           in if filepath s1 = [] \<or> filepath s1 = ''-'' then
                (let s2 = s1\<lparr> input_file := Some Stdin \<rparr>
                 in Returned () s2 (yyset_in (input_file s2) (scanner s2) w3))
              else
                (case fopen (filepath s1) w3 of
                   (None, w4) \<Rightarrow>
                     Exited EXIT_FAILURE
                       (error (''Cannot open '' @ filepath s1 @ '': '' @ errno_text w4) w4)
                 | (Some f, w4) \<Rightarrow>
                     (let s2 = s1\<lparr> input_file := Some f \<rparr>
                      in Returned () s2 (yyset_in (input_file s2) (scanner s2) w4)))))"

definition scan_end :: "VCDFileParser \<Rightarrow> world \<Rightarrow> VCDFileParser \<times> world" where
  "scan_end s w =
     (let w1 = (case input_file s of
                  None \<Rightarrow> w
                | Some f \<Rightarrow> if f \<noteq> Stdin then fclose f w else w);
          s1 = s\<lparr> input_file := None \<rparr>
      in case scanner s1 of
           None \<Rightarrow> (s1, w1)
         | Some k \<Rightarrow> (s1\<lparr> scanner := None \<rparr>, yylex_destroy k w1))"

subsection \<open>The grammar engine\<close>

text \<open>
  The bison grammar and the flex rules (VCDParser.ypp, VCDScanner.l) are not part
  of the sources at hand, so \<^verbatim>\<open>parser.parse()\<close> is a parameter. An engine is
  given the scanner's debug flag, the parser's debug level, the text behind the
  scanner's input, the session and the free store; it answers with bison's
  result code, the session, the free store and the lines it wrote to
  \<^verbatim>\<open>std::cerr\<close>. \<open>scanner\<close> and \<open>input_file\<close> are protected members, out of the
  reach of the parser object, so \<open>parser_parse\<close> keeps them. The read position
  of an input is not part of the model: the engine is given the whole text
  behind the handle, also when standard input has been read before.
\<close>

type_synonym engine =
  "bool \<Rightarrow> bool \<Rightarrow> string \<Rightarrow> VCDFileParser \<Rightarrow> heap \<Rightarrow> int \<times> VCDFileParser \<times> heap \<times> string list"

definition scanner_state :: "VCDFileParser \<Rightarrow> world \<Rightarrow> yyguts_t option" where
  "scanner_state s w = (case scanner s of None \<Rightarrow> None | Some k \<Rightarrow> scanners w k)"

definition file_text :: "FILE option \<Rightarrow> world \<Rightarrow> string" where
  "file_text f w =
     (case f of
        None \<Rightarrow> []
      | Some Stdin \<Rightarrow> stdin_text w
      | Some (Handle n) \<Rightarrow>
          (case open_files w n of
             None \<Rightarrow> []
           | Some p \<Rightarrow> (case fs w p of Unreadable e \<Rightarrow> [] | Readable t \<Rightarrow> t)))"

definition scanner_text :: "VCDFileParser \<Rightarrow> world \<Rightarrow> string" where
  "scanner_text s w =
     (case scanner_state s w of None \<Rightarrow> [] | Some g \<Rightarrow> file_text (yyin_r g) w)"

definition scanner_debug :: "VCDFileParser \<Rightarrow> world \<Rightarrow> bool" where
  "scanner_debug s w =
     (case scanner_state s w of None \<Rightarrow> False | Some g \<Rightarrow> yy_flex_debug_r g \<noteq> 0)"

definition parser_parse :: "engine \<Rightarrow> VCDFileParser \<Rightarrow> world \<Rightarrow> int \<times> VCDFileParser \<times> world" where
  "parser_parse eng s w =
     (case eng (scanner_debug s w) (trace_parsing s) (scanner_text s w) s (heap w) of
        (rc, s', h', diag) \<Rightarrow>
          (rc,
           s'\<lparr> scanner := scanner s, input_file := input_file s \<rparr>,
           w\<lparr> heap := h', stderr := stderr w @ diag \<rparr>))"

subsection \<open>Free store operations\<close>

definition new_VCDFile :: "heap \<Rightarrow> addr \<times> heap" where
  "new_VCDFile h =
     (next_addr h,
      h\<lparr> vcd_files := (vcd_files h)(next_addr h \<mapsto> \<lparr> root_scope = None, file_scopes = [] \<rparr>),
         next_addr := Suc (next_addr h) \<rparr>)"

definition new_VCDScope :: "heap \<Rightarrow> addr \<times> heap" where
  "new_VCDScope h =
     (next_addr h,
      h\<lparr> vcd_scopes := (vcd_scopes h)(next_addr h \<mapsto>
             \<lparr> name = [], scope_type = None, parent = None, children = [] \<rparr>),
         next_addr := Suc (next_addr h) \<rparr>)"

definition upd_file :: "(VCDFile \<Rightarrow> VCDFile) \<Rightarrow> addr \<Rightarrow> heap \<Rightarrow> heap" where
  "upd_file f a h =
     (case vcd_files h a of
        None \<Rightarrow> h
      | Some v \<Rightarrow> h\<lparr> vcd_files := (vcd_files h)(a \<mapsto> f v) \<rparr>)"

definition upd_scope :: "(VCDScope \<Rightarrow> VCDScope) \<Rightarrow> addr \<Rightarrow> heap \<Rightarrow> heap" where
  "upd_scope f a h =
     (case vcd_scopes h a of
        None \<Rightarrow> h
      | Some v \<Rightarrow> h\<lparr> vcd_scopes := (vcd_scopes h)(a \<mapsto> f v) \<rparr>)"

text \<open>
  One of the two identical blocks of \<^verbatim>\<open>parse_file\<close>: allocate a scope, make it the
  file's \<^verbatim>\<open>root_scope\<close>, name it, mark it as root and push it.
\<close>

definition push_root :: "string \<Rightarrow> addr \<Rightarrow> VCDFileParser \<Rightarrow> heap \<Rightarrow> VCDFileParser \<times> heap" where
  "push_root nm a s h =
     (case new_VCDScope h of
        (r, h1) \<Rightarrow>
          (let h2 = upd_file (\<lambda>v. v\<lparr> root_scope := Some r \<rparr>) a h1;
               h3 = upd_scope (\<lambda>c. c\<lparr> name := nm \<rparr>) r h2;
               h4 = upd_scope (\<lambda>c. c\<lparr> scope_type := Some VCD_SCOPE_ROOT \<rparr>) r h3
           in (s\<lparr> scopes := r # scopes s \<rparr>, h4)))"

text \<open>
  Modelled from the spec: \<^verbatim>\<open>VCDFile::add_scope\<close> (VCDFile.cpp is not at hand).
  The spec has the root scope attached to the Trace, and the standalone \<^verbatim>\<open>main\<close>
  walks over \<^verbatim>\<open>get_scopes()\<close>; here the scope is appended to the file's list of
  scopes.
\<close>

definition add_scope :: "addr \<Rightarrow> addr \<Rightarrow> heap \<Rightarrow> heap" where
  "add_scope a r h = upd_file (\<lambda>v. v\<lparr> file_scopes := file_scopes v @ [r] \<rparr>) a h"

definition delete_VCDFile :: "addr option \<Rightarrow> heap \<Rightarrow> heap" where
  "delete_VCDFile p h =
     (case p of None \<Rightarrow> h | Some a \<Rightarrow> h\<lparr> vcd_files := (vcd_files h)(a := None) \<rparr>)"

subsection \<open>parse\_file\<close>

text \<open>
  \<open>parse_prepare\<close> is \<^verbatim>\<open>parse_file\<close> up to the construction of the parser object;
  its result is the local \<^verbatim>\<open>tr\<close>. \<open>parse_finish\<close> is \<^verbatim>\<open>parse_file\<close> from
  \<^verbatim>\<open>scopes.pop()\<close> on.
\<close>

definition parse_prepare :: "string \<Rightarrow> VCDFileParser \<Rightarrow> world \<Rightarrow> addr outcome" where
  "parse_prepare p s w =
     (case scan_begin (s\<lparr> filepath := p, current_time := 0 \<rparr>) w of
        Exited c w' \<Rightarrow> Exited c w'
      | Undefined \<Rightarrow> Undefined
      | Returned u s1 w1 \<Rightarrow>
          (case new_VCDFile (heap w1) of
             (tr, h1) \<Rightarrow>
               (let s2 = s1\<lparr> fh := Some tr \<rparr> in
                (case push_root ''$root'' tr s2 h1 of
                   (s3, h2) \<Rightarrow>
                     (case push_root [] tr s3 h2 of
                        (s4, h3) \<Rightarrow>
                          Returned tr s4 (w1\<lparr> heap := add_scope tr (hd (scopes s4)) h3 \<rparr>))))))"

definition parse_finish :: "addr \<Rightarrow> int \<Rightarrow> VCDFileParser \<Rightarrow> world \<Rightarrow> addr option outcome" where
  "parse_finish tr rc s w =
     (if scopes s = [] then Undefined
      else
        (case scan_end (s\<lparr> scopes := tl (scopes s) \<rparr>) w of
           (s1, w1) \<Rightarrow>
             if rc = 0 then Returned (Some tr) (s1\<lparr> fh := None \<rparr>) w1
             else Returned None s1 (w1\<lparr> heap := delete_VCDFile (fh s1) (heap w1) \<rparr>)))"

definition parse_file :: "engine \<Rightarrow> string \<Rightarrow> VCDFileParser \<Rightarrow> world \<Rightarrow> addr option outcome" where
  "parse_file eng p s w =
     (case parse_prepare p s w of
        Exited c w' \<Rightarrow> Exited c w'
      | Undefined \<Rightarrow> Undefined
      | Returned tr s1 w1 \<Rightarrow>
          (case parser_parse eng s1 w1 of
             (rc, s2, w2) \<Rightarrow> parse_finish tr rc s2 w2))"

text \<open>
  The caller of \<^verbatim>\<open>test_sequential_reuse\<close>: two calls on the same session, the
  second on whatever the first one left behind.
\<close>

definition parse_twice ::
  "engine \<Rightarrow> string \<Rightarrow> string \<Rightarrow> VCDFileParser \<Rightarrow> world \<Rightarrow> addr option outcome" where
  "parse_twice eng pa pb s w =
     (case parse_file eng pa s w of
        Exited c w' \<Rightarrow> Exited c w'
      | Undefined \<Rightarrow> Undefined
      | Returned r s' w' \<Rightarrow> parse_file eng pb s' w')"

subsection \<open>Observations on an outcome\<close>

fun returned_value :: "'a outcome \<Rightarrow> 'a option" where
  "returned_value (Returned r s w) = Some r"
| "returned_value (Exited c w) = None"
| "returned_value Undefined = None"

fun exit_status :: "'a outcome \<Rightarrow> int option" where
  "exit_status (Returned r s w) = None"
| "exit_status (Exited c w) = Some c"
| "exit_status Undefined = None"

fun final_world :: "'a outcome \<Rightarrow> world option" where
  "final_world (Returned r s w) = Some w"
| "final_world (Exited c w) = Some w"
| "final_world Undefined = None"

fun final_session :: "'a outcome \<Rightarrow> VCDFileParser option" where
  "final_session (Returned r s w) = Some s"
| "final_session (Exited c w) = None"
| "final_session Undefined = None"

definition scanner_alive :: "nat \<Rightarrow> 'a outcome \<Rightarrow> bool" where
  "scanner_alive k out =
     (case final_world out of None \<Rightarrow> False | Some w \<Rightarrow> scanners w k \<noteq> None)"

text \<open>
  What the caller of \<^verbatim>\<open>parse_file\<close> gets: the pointer returned together with the
  free store it points into, or the exit status of the process.
\<close>

datatype observation = ObsReturned "addr option" heap | ObsExited int | ObsUndefined

fun observe :: "addr option outcome \<Rightarrow> observation" where
  "observe (Returned r s w) = ObsReturned r (heap w)"
| "observe (Exited c w) = ObsExited c"
| "observe Undefined = ObsUndefined"

text \<open>
  Modelled from the spec: the debug flags of the generated scanner and parser
  (their code is not at hand) "only affect diagnostic output, never parse
  results". For an engine this says: whatever the two debug levels and the two
  toggles of the session are, the result code, the free store, and the \<open>fh\<close> and
  \<open>scopes\<close> members it leaves are those of the run with everything switched off.
\<close>

definition debug_only_diagnostics :: "engine \<Rightarrow> bool" where
  "debug_only_diagnostics eng =
     (\<forall>ds dp inp s h a b.
        (case eng ds dp inp (s\<lparr> trace_scanning := a, trace_parsing := b \<rparr>) h of
           (rc, s', h', d) \<Rightarrow>
             (case eng False False inp (s\<lparr> trace_scanning := False, trace_parsing := False \<rparr>) h of
                (rc0, s0, h0, d0) \<Rightarrow>
                  rc = rc0 \<and> h' = h0 \<and> fh s' = fh s0 \<and> scopes s' = scopes s0)))"

subsection \<open>Concrete inputs\<close>

text \<open>
  The limits of an IEEE 754 double, the type the idiom
  \<^verbatim>\<open>-std::numeric_limits<T>::max()\<close> is written for.
\<close>

definition double_limits :: numeric_limits where
  "double_limits =
     \<lparr> limits_max = (2 ^ 53 - 1) * 2 ^ 971, limits_lowest = - ((2 ^ 53 - 1) * 2 ^ 971) \<rparr>"

definition empty_heap :: heap where
  "empty_heap = \<lparr> vcd_files = Map.empty, vcd_scopes = Map.empty, next_addr = 0 \<rparr>"

text \<open>
  An environment with two readable files, one of them empty; every other path
  cannot be opened.
\<close>

definition sample_world :: world where
  "sample_world =
     \<lparr> fs = (\<lambda>p. if p = ''a.vcd'' then Readable ''$enddefinitions $end''
                 else if p = ''empty.vcd'' then Readable []
                 else Unreadable ''No such file or directory''),
       errno_text = [],
       stdin_text = ''$enddefinitions $end'',
       stdin_open = True,
       open_files = Map.empty,
       next_handle = 0,
       scanners = Map.empty,
       next_scanner = 0,
       heap = empty_heap,
       stderr = [] \<rparr>"

definition fresh_session :: VCDFileParser where
  "fresh_session = new_VCDFileParser double_limits None"

text \<open>
  A small engine to run the driver with: it rejects the empty text and accepts
  every other one, moves the time cursor, leaves the scope stack as it found it
  and writes a line per debug level that is switched on.
\<close>

definition sample_engine :: engine where
  "sample_engine ds dp inp s h =
     (if inp = [] then 1 else 0,
      s\<lparr> current_time := real (length inp) \<rparr>,
      h,
      (if ds then [''--(end of buffer or a NUL)''] else [])
        @ (if dp then [''Starting parse''] else []))"

text \<open>The session and the environment right after \<^verbatim>\<open>scan_begin\<close> for the path \<^verbatim>\<open>-\<close>.\<close>

definition scanning_stdin :: "VCDFileParser \<times> world" where
  "scanning_stdin =
     (case scan_begin (fresh_session\<lparr> filepath := ''-'' \<rparr>) sample_world of
        Returned u s w \<Rightarrow> (s, w)
      | Exited c w \<Rightarrow> (fresh_session, w)
      | Undefined \<Rightarrow> (fresh_session, sample_world))"

lemmas driver_defs =
  parse_twice_def parse_file_def parse_prepare_def parse_finish_def parser_parse_def
  scan_begin_def scan_end_def yylex_init_def yyset_extra_def yyset_debug_def yyset_in_def
  yylex_destroy_def upd_scanner_def fopen_def error_def new_VCDFile_def new_VCDScope_def
  upd_file_def upd_scope_def push_root_def add_scope_def delete_VCDFile_def
  scanner_state_def scanner_text_def scanner_debug_def file_text_def EXIT_FAILURE_def
  scanner_alive_def

lemmas sample_defs =
  sample_world_def fresh_session_def sample_engine_def new_VCDFileParser_def
  empty_heap_def double_limits_def

section \<open>Properties of the driver\<close>

subsection \<open>Closing the input\<close>

lemma fclose_frame:
  "scanners (fclose f w) = scanners w"
  "heap (fclose f w) = heap w"
  "stderr (fclose f w) = stderr w"
  "f \<noteq> Stdin \<Longrightarrow> stdin_open (fclose f w) = stdin_open w"
  by (cases f; simp)+

lemma scan_end_session:
  "scan_end s w = (s', w') \<Longrightarrow>
     input_file s' = None \<and> scanner s' = None \<and> scopes s' = scopes s \<and> fh s' = fh s"
  by (auto simp: scan_end_def Let_def split: option.splits)

lemma scan_end_scanners:
  "scan_end s w = (s', w') \<Longrightarrow>
     scanners w' = (case scanner s of None \<Rightarrow> scanners w | Some k \<Rightarrow> (scanners w)(k := None))"
  by (auto simp: scan_end_def Let_def yylex_destroy_def fclose_frame split: option.splits)

lemma scan_end_world:
  "scan_end s w = (s', w') \<Longrightarrow>
     stdin_open w' = stdin_open w \<and> heap w' = heap w \<and> stderr w' = stderr w \<and>
     open_files w' =
       (case input_file s of Some (Handle n) \<Rightarrow> (open_files w)(n := None) | _ \<Rightarrow> open_files w)"
  by (auto simp: scan_end_def Let_def yylex_destroy_def fclose_frame
      split: option.splits FILE.splits)

subsection \<open>Opening the input\<close>

lemma scan_begin_Returned:
  assumes "scan_begin s w = Returned u s1 w1"
  shows "s1 = s\<lparr> scanner := Some (next_scanner w),
                 input_file := Some (if filepath s = [] \<or> filepath s = ''-'' then Stdin
                                     else Handle (next_handle w)) \<rparr>"
    and "scanners w1 = (scanners w)(next_scanner w \<mapsto>
            \<lparr> yyextra_r = True, yy_flex_debug_r = (if trace_scanning s then 1 else 0),
              yyin_r = input_file s1 \<rparr>)"
    and "open_files w1 = (if filepath s = [] \<or> filepath s = ''-'' then open_files w
                          else (open_files w)(next_handle w \<mapsto> filepath s))"
    and "stdin_open w1 = stdin_open w" and "stdin_text w1 = stdin_text w" and "fs w1 = fs w"
    and "heap w1 = heap w" and "stderr w1 = stderr w"
    and "\<not> (filepath s = [] \<or> filepath s = ''-'') \<Longrightarrow> \<exists>t. fs w (filepath s) = Readable t"
  using assms
  by (auto simp: scan_begin_def yylex_init_def yyset_extra_def yyset_debug_def yyset_in_def
        upd_scanner_def fopen_def Let_def
      split: if_splits fopen_result.splits)

lemma scan_begin_stdin:
  assumes "filepath s = [] \<or> filepath s = ''-''"
  shows "\<exists>s1 w1. scan_begin s w = Returned () s1 w1"
  using assms by (auto simp: scan_begin_def yylex_init_def Let_def)

lemma scan_begin_readable:
  assumes "fs w (filepath s) = Readable t"
  shows "\<exists>s1 w1. scan_begin s w = Returned () s1 w1"
  using assms
  by (auto simp: scan_begin_def yylex_init_def yyset_extra_def yyset_debug_def yyset_in_def
        upd_scanner_def fopen_def Let_def)

lemma scan_begin_unreadable:
  assumes "filepath s \<noteq> []" "filepath s \<noteq> ''-''" "fs w (filepath s) = Unreadable e"
  shows "\<exists>w'. scan_begin s w = Exited EXIT_FAILURE w'
      \<and> stderr w' = stderr w @ ['' : Cannot open '' @ filepath s @ '': '' @ e]
      \<and> scanners w' (next_scanner w) \<noteq> None \<and> open_files w' = open_files w
      \<and> heap w' = heap w"
  using assms
  by (auto simp: scan_begin_def yylex_init_def yyset_extra_def yyset_debug_def yyset_in_def
        upd_scanner_def fopen_def Let_def error_def)

subsection \<open>The three stages of parse\_file\<close>

lemma push_root_eq:
  assumes "vcd_files h a = Some v"
  shows "push_root nm a s h =
     (s\<lparr> scopes := next_addr h # scopes s \<rparr>,
      h\<lparr> vcd_files := (vcd_files h)(a \<mapsto> v\<lparr> root_scope := Some (next_addr h) \<rparr>),
         vcd_scopes := (vcd_scopes h)(next_addr h \<mapsto>
            \<lparr> name = nm, scope_type = Some VCD_SCOPE_ROOT, parent = None, children = [] \<rparr>),
         next_addr := Suc (next_addr h) \<rparr>)"
  using assms
  by (simp add: push_root_def new_VCDScope_def upd_file_def upd_scope_def Let_def)

text \<open>
  The state in which the grammar engine is started: the file object at \<open>tr\<close>,
  the scope named \<^verbatim>\<open>$root\<close> at \<open>tr + 1\<close> and the unnamed one at \<open>tr + 2\<close>, both on
  the stack, the second one registered in the file.
\<close>

lemma parse_prepare_Returned:
  assumes "parse_prepare p s w = Returned tr s1 w1"
  shows "tr = next_addr (heap w)"
    and "s1 = s\<lparr> filepath := p, current_time := 0, scanner := Some (next_scanner w),
                 input_file := Some (if p = [] \<or> p = ''-'' then Stdin
                                     else Handle (next_handle w)),
                 fh := Some tr,
                 scopes := Suc (Suc tr) # Suc tr # scopes s \<rparr>"
    and "scanners w1 = (scanners w)(next_scanner w \<mapsto>
            \<lparr> yyextra_r = True, yy_flex_debug_r = (if trace_scanning s then 1 else 0),
              yyin_r = input_file s1 \<rparr>)"
    and "open_files w1 = (if p = [] \<or> p = ''-'' then open_files w
                          else (open_files w)(next_handle w \<mapsto> p))"
    and "stdin_open w1 = stdin_open w" and "stdin_text w1 = stdin_text w" and "fs w1 = fs w"
    and "stderr w1 = stderr w"
    and "heap w1 = (heap w)\<lparr>
           vcd_files := (vcd_files (heap w))(tr \<mapsto>
              \<lparr> root_scope = Some (Suc (Suc tr)), file_scopes = [Suc (Suc tr)] \<rparr>),
           vcd_scopes := (vcd_scopes (heap w))
              (Suc tr \<mapsto> \<lparr> name = ''$root'', scope_type = Some VCD_SCOPE_ROOT,
                             parent = None, children = [] \<rparr>,
               Suc (Suc tr) \<mapsto> \<lparr> name = [], scope_type = Some VCD_SCOPE_ROOT,
                             parent = None, children = [] \<rparr>),
           next_addr := Suc (Suc (Suc tr)) \<rparr>"
    and "\<not> (p = [] \<or> p = ''-'') \<Longrightarrow> \<exists>t. fs w p = Readable t"
proof -
  from assms obtain u s0 w0 where
    sb: "scan_begin (s\<lparr> filepath := p, current_time := 0 \<rparr>) w = Returned u s0 w0"
    by (auto simp: parse_prepare_def split: outcome.splits)
  note f = scan_begin_Returned[OF sb]
  from assms sb have
    eq: "Returned tr s1 w1 =
      (case new_VCDFile (heap w0) of
             (tr, h1) \<Rightarrow>
               (let s2 = s0\<lparr> fh := Some tr \<rparr> in
                (case push_root ''$root'' tr s2 h1 of
                   (s3, h2) \<Rightarrow>
                     (case push_root [] tr s3 h2 of
                        (s4, h3) \<Rightarrow>
                          Returned tr s4 (w0\<lparr> heap := add_scope tr (hd (scopes s4)) h3 \<rparr>)))))"
    by (simp add: parse_prepare_def)
  have tr: "tr = next_addr (heap w)" and
    s1: "s1 = s0\<lparr> fh := Some tr, scopes := Suc (Suc tr) # Suc tr # scopes s0 \<rparr>" and
    w1: "w1 = w0\<lparr> heap := (heap w)\<lparr>
           vcd_files := (vcd_files (heap w))(tr \<mapsto>
              \<lparr> root_scope = Some (Suc (Suc tr)), file_scopes = [Suc (Suc tr)] \<rparr>),
           vcd_scopes := (vcd_scopes (heap w))
              (Suc tr \<mapsto> \<lparr> name = ''$root'', scope_type = Some VCD_SCOPE_ROOT,
                             parent = None, children = [] \<rparr>,
               Suc (Suc tr) \<mapsto> \<lparr> name = [], scope_type = Some VCD_SCOPE_ROOT,
                             parent = None, children = [] \<rparr>),
           next_addr := Suc (Suc (Suc tr)) \<rparr> \<rparr>"
    using eq f(7)
    by (simp_all add: new_VCDFile_def push_root_eq add_scope_def upd_file_def Let_def
          fun_upd_twist)
  show "tr = next_addr (heap w)" by (rule tr)
  show "s1 = s\<lparr> filepath := p, current_time := 0, scanner := Some (next_scanner w),
                 input_file := Some (if p = [] \<or> p = ''-'' then Stdin
                                     else Handle (next_handle w)),
                 fh := Some tr,
                 scopes := Suc (Suc tr) # Suc tr # scopes s \<rparr>"
    using s1 f(1) by simp
  show "scanners w1 = (scanners w)(next_scanner w \<mapsto>
            \<lparr> yyextra_r = True, yy_flex_debug_r = (if trace_scanning s then 1 else 0),
              yyin_r = input_file s1 \<rparr>)"
    using s1 w1 f(1,2) by simp
  show "open_files w1 = (if p = [] \<or> p = ''-'' then open_files w
                          else (open_files w)(next_handle w \<mapsto> p))"
    using w1 f(3) by simp
  show "stdin_open w1 = stdin_open w" "stdin_text w1 = stdin_text w" "fs w1 = fs w"
    "stderr w1 = stderr w"
    using w1 f by simp_all
  show "heap w1 = (heap w)\<lparr>
           vcd_files := (vcd_files (heap w))(tr \<mapsto>
              \<lparr> root_scope = Some (Suc (Suc tr)), file_scopes = [Suc (Suc tr)] \<rparr>),
           vcd_scopes := (vcd_scopes (heap w))
              (Suc tr \<mapsto> \<lparr> name = ''$root'', scope_type = Some VCD_SCOPE_ROOT,
                             parent = None, children = [] \<rparr>,
               Suc (Suc tr) \<mapsto> \<lparr> name = [], scope_type = Some VCD_SCOPE_ROOT,
                             parent = None, children = [] \<rparr>),
           next_addr := Suc (Suc (Suc tr)) \<rparr>"
    using w1 by simp
  show "\<exists>t. fs w p = Readable t" if "\<not> (p = [] \<or> p = ''-'')"
    using f(9) that by simp
qed

lemma parse_prepare_returns:
  assumes "p = [] \<or> p = ''-'' \<or> fs w p = Readable t"
  shows "\<exists>tr s1 w1. parse_prepare p s w = Returned tr s1 w1"
proof -
  have "\<exists>s0 w0. scan_begin (s\<lparr> filepath := p, current_time := 0 \<rparr>) w = Returned () s0 w0"
    using assms
      scan_begin_stdin[of "s\<lparr> filepath := p, current_time := 0 \<rparr>" w]
      scan_begin_readable[of w "s\<lparr> filepath := p, current_time := 0 \<rparr>" t]
    by auto
  then show ?thesis
    by (auto simp: parse_prepare_def Let_def split: prod.splits)
qed

lemma parse_prepare_exits:
  assumes "p \<noteq> []" "p \<noteq> ''-''" "fs w p = Unreadable e"
  shows "\<exists>w'. parse_prepare p s w = Exited EXIT_FAILURE w'
      \<and> stderr w' = stderr w @ ['' : Cannot open '' @ p @ '': '' @ e]
      \<and> scanners w' (next_scanner w) \<noteq> None \<and> open_files w' = open_files w
      \<and> heap w' = heap w"
  using scan_begin_unreadable[of "s\<lparr> filepath := p, current_time := 0 \<rparr>" w e] assms
  by (auto simp: parse_prepare_def)

lemma prepare_scanner_text:
  assumes "parse_prepare p s w = Returned tr s1 w1"
  shows "scanner_text s1 w1 =
           (if p = [] \<or> p = ''-'' then stdin_text w
            else (case fs w p of Unreadable e \<Rightarrow> [] | Readable t \<Rightarrow> t))"
    and "scanner_debug s1 w1 = trace_scanning s"
  using parse_prepare_Returned(2,3,4,6,7)[OF assms]
  by (auto simp: scanner_text_def scanner_debug_def scanner_state_def file_text_def)

lemma parser_parse_frame:
  assumes "parser_parse eng s w = (rc, s2, w2)"
  shows "scanner s2 = scanner s" and "input_file s2 = input_file s"
    and "scanners w2 = scanners w" and "open_files w2 = open_files w"
    and "stdin_open w2 = stdin_open w"
  using assms by (auto simp: parser_parse_def split: prod.splits)

lemma parse_finish_Returned:
  assumes "parse_finish tr rc s w = Returned r s' w'"
  shows "scopes s \<noteq> []" and "scopes s' = tl (scopes s)"
    and "input_file s' = None" and "scanner s' = None"
    and "r = (if rc = 0 then Some tr else None)"
    and "fh s' = (if rc = 0 then None else fh s)"
    and "heap w' = (if rc = 0 then heap w else delete_VCDFile (fh s) (heap w))"
    and "stdin_open w' = stdin_open w"
    and "scanners w' =
           (case scanner s of None \<Rightarrow> scanners w | Some k \<Rightarrow> (scanners w)(k := None))"
    and "open_files w' =
           (case input_file s of Some (Handle n) \<Rightarrow> (open_files w)(n := None)
            | _ \<Rightarrow> open_files w)"
proof -
  from assms have ne: "scopes s \<noteq> []"
    by (auto simp: parse_finish_def split: if_splits)
  obtain s1 w1 where se: "scan_end (s\<lparr> scopes := tl (scopes s) \<rparr>) w = (s1, w1)"
    by (cases "scan_end (s\<lparr> scopes := tl (scopes s) \<rparr>) w")
  from assms ne se have
    r: "r = (if rc = 0 then Some tr else None)" and
    s': "s' = (if rc = 0 then s1\<lparr> fh := None \<rparr> else s1)" and
    w': "w' = (if rc = 0 then w1 else w1\<lparr> heap := delete_VCDFile (fh s1) (heap w1) \<rparr>)"
    by (auto simp: parse_finish_def split: if_splits)
  note a = scan_end_session[OF se] scan_end_scanners[OF se] scan_end_world[OF se]
  show "scopes s \<noteq> []" by (rule ne)
  show "scopes s' = tl (scopes s)" using s' a(1) by simp
  show "input_file s' = None" "scanner s' = None" using s' a(1) by simp_all
  show "r = (if rc = 0 then Some tr else None)" by (rule r)
  show "fh s' = (if rc = 0 then None else fh s)" using s' a(1) by simp
  show "heap w' = (if rc = 0 then heap w else delete_VCDFile (fh s) (heap w))"
    using w' a(1,3) by simp
  show "stdin_open w' = stdin_open w" using w' a(3) by simp
  show "scanners w' =
           (case scanner s of None \<Rightarrow> scanners w | Some k \<Rightarrow> (scanners w)(k := None))"
    using w' a(2) by simp
  show "open_files w' =
           (case input_file s of Some (Handle n) \<Rightarrow> (open_files w)(n := None)
            | _ \<Rightarrow> open_files w)"
    using w' a(3) by simp
qed

lemma parse_finish_nonempty:
  assumes "scopes s \<noteq> []"
  shows "\<exists>s' w'. parse_finish tr rc s w = Returned (if rc = 0 then Some tr else None) s' w'"
  using assms by (auto simp: parse_finish_def split: prod.splits)

lemma parse_file_stages:
  assumes "parse_file eng p s w = Returned r s' w'"
  shows "\<exists>tr s1 w1 rc s2 w2. parse_prepare p s w = Returned tr s1 w1
           \<and> parser_parse eng s1 w1 = (rc, s2, w2)
           \<and> parse_finish tr rc s2 w2 = Returned r s' w'"
  using assms by (auto simp: parse_file_def split: outcome.splits prod.splits)

text \<open>What a returning call has done to the input handle and the scanner.\<close>

lemma parse_file_Returned_frame:
  assumes "parse_file eng p s w = Returned r s' w'"
  shows "input_file s' = None" and "scanner s' = None"
    and "scanners w' = (scanners w)(next_scanner w := None)"
    and "open_files w' = (if p = [] \<or> p = ''-'' then open_files w
                          else (open_files w)(next_handle w := None))"
    and "stdin_open w' = stdin_open w"
proof -
  from parse_file_stages[OF assms] obtain tr s1 w1 rc s2 w2 where
    pp: "parse_prepare p s w = Returned tr s1 w1" and
    pa: "parser_parse eng s1 w1 = (rc, s2, w2)" and
    pf: "parse_finish tr rc s2 w2 = Returned r s' w'"
    by blast
  note a = parse_prepare_Returned[OF pp]
  note b = parser_parse_frame[OF pa]
  note c = parse_finish_Returned[OF pf]
  have sc: "scanner s2 = Some (next_scanner w)" using a(2) b(1) by simp
  have inp: "input_file s2 = Some (if p = [] \<or> p = ''-'' then Stdin else Handle (next_handle w))"
    using a(2) b(2) by simp
  show "scanners w' = (scanners w)(next_scanner w := None)"
    using c(9) sc b(3) a(3) by simp
  show "open_files w' = (if p = [] \<or> p = ''-'' then open_files w
                           else (open_files w)(next_handle w := None))"
    using c(10) inp b(4) a(4) by simp
  show "stdin_open w' = stdin_open w"
    using c(8) b(5) a(5) by simp
  show "input_file s' = None" "scanner s' = None" using c(3,4) by simp_all
qed

text \<open>
  The scope stack after a returning call, for an engine that leaves the stack as
  it found it: one entry more than before the call.
\<close>

lemma parse_file_stack_grows:
  assumes "parse_file eng p s w = Returned r s' w'"
    and "\<And>s1 w1 rc s2 w2. parser_parse eng s1 w1 = (rc, s2, w2) \<Longrightarrow> scopes s2 = scopes s1"
  shows "scopes s' = Suc (next_addr (heap w)) # scopes s"
proof -
  from parse_file_stages[OF assms(1)] obtain tr s1 w1 rc s2 w2 where
    pp: "parse_prepare p s w = Returned tr s1 w1" and
    pa: "parser_parse eng s1 w1 = (rc, s2, w2)" and
    pf: "parse_finish tr rc s2 w2 = Returned r s' w'"
    by blast
  show ?thesis
    using parse_prepare_Returned(1,2)[OF pp] assms(2)[OF pa] parse_finish_Returned(2)[OF pf]
    by simp
qed

lemma observe_parse_finish:
  "observe (parse_finish tr rc s w) =
     (if scopes s = [] then ObsUndefined
      else if rc = 0 then ObsReturned (Some tr) (heap w)
      else ObsReturned None (delete_VCDFile (fh s) (heap w)))"
proof (cases "scopes s = []")
  case True
  then show ?thesis by (simp add: parse_finish_def)
next
  case False
  obtain s1 w1 where se: "scan_end (s\<lparr> scopes := tl (scopes s) \<rparr>) w = (s1, w1)"
    by (cases "scan_end (s\<lparr> scopes := tl (scopes s) \<rparr>) w")
  show ?thesis
    using False se scan_end_session[OF se] scan_end_world[OF se]
    by (simp add: parse_finish_def)
qed

lemma observe_parse_file:
  assumes "parse_prepare p s w = Returned tr s1 w1"
  shows "observe (parse_file eng p s w) =
     (case eng (trace_scanning s) (trace_parsing s) (scanner_text s1 w1) s1 (heap w1) of
        (rc, s', h', d) \<Rightarrow>
          if scopes s' = [] then ObsUndefined
          else if rc = 0 then ObsReturned (Some tr) h'
          else ObsReturned None (delete_VCDFile (fh s') h'))"
  using assms prepare_scanner_text(2)[OF assms] parse_prepare_Returned(2)[OF assms]
  by (simp add: parse_file_def parser_parse_def observe_parse_finish split: prod.splits)

subsection \<open>Facts about the concrete inputs\<close>

lemma returned_value_Some:
  "returned_value out = Some r \<Longrightarrow> \<exists>s w. out = Returned r s w"
  by (cases out) auto

lemma sample_a_returns:
  "returned_value (parse_file sample_engine ''a.vcd'' fresh_session sample_world) = Some (Some 0)"
  by (simp add: driver_defs sample_defs)

lemma sample_stdin_returns:
  "returned_value (parse_file sample_engine ''-'' fresh_session sample_world) = Some (Some 0)"
  by (simp add: driver_defs sample_defs)


lemma sample_prepare_a:
  "\<exists>tr s1 w1. parse_prepare ''a.vcd'' fresh_session sample_world = Returned tr s1 w1"
  using parse_prepare_returns[of "''a.vcd''" sample_world "''$enddefinitions $end''" fresh_session]
  by (simp add: sample_world_def)

lemma sample_engine_rc:
  "parser_parse sample_engine s w = (rc, s2, w2) \<Longrightarrow>
     rc = (if scanner_text s w = [] then 1 else 0) \<and> scopes s2 = scopes s \<and> fh s2 = fh s"
  by (auto simp: parser_parse_def sample_engine_def)

lemma sample_engine_debug_only: "debug_only_diagnostics sample_engine"
  by (simp add: debug_only_diagnostics_def sample_engine_def)

section \<open>The claims\<close>

subsection \<open>C1: a file that cannot be opened\<close>

text \<open>
  C1 asks that a file which cannot be opened be reported through the diagnostic
  sink and answered with a failure result, the session staying usable. The
  header promises the same (\<^verbatim>\<open>nullptr\<close> when parsing fails), and the path taken
  on a grammar failure does it: \<^verbatim>\<open>scan_end\<close>, \<^verbatim>\<open>delete\<close>, \<^verbatim>\<open>return nullptr\<close>.
  On the path \<^verbatim>\<open>missing.vcd\<close>, which cannot be opened, the code reports the
  failure and then calls \<^verbatim>\<open>exit(EXIT_FAILURE)\<close> inside \<^verbatim>\<open>scan_begin\<close>: nothing is
  handed back to the caller, neither a Trace nor a null pointer, and the process
  ends with the line \<^verbatim>\<open> : Cannot open missing.vcd: No such file or directory\<close> as
  the last one on the sink.
\<close>

theorem cannot_open_ends_process:
  "returned_value (parse_file sample_engine ''missing.vcd'' fresh_session sample_world) = None
   \<and> exit_status (parse_file sample_engine ''missing.vcd'' fresh_session sample_world)
       = Some EXIT_FAILURE
   \<and> map_option stderr
         (final_world (parse_file sample_engine ''missing.vcd'' fresh_session sample_world))
       = Some ['' : Cannot open missing.vcd: No such file or directory'']"
  by (simp add: driver_defs sample_defs)

subsection \<open>C2: the scope stack across calls\<close>

text \<open>
  C2 asks for exactly one root scope pushed on a cleared stack and for a stack
  that is clean again when the call returns. The code pushes two root scopes
  (the block that allocates, names and pushes the root occurs twice), pops one
  and never clears the stack. Evaluated on a fresh session and the readable file
  \<^verbatim>\<open>a.vcd\<close>: after one call the stack still holds the scope named \<^verbatim>\<open>$root\<close> (address
  1), after a second call on the same session it holds two such leftovers.
\<close>

theorem parse_file_leaves_stale_root:
  "map_option scopes
     (final_session (parse_file sample_engine ''a.vcd'' fresh_session sample_world)) = Some [1]
   \<and> map_option scopes
     (final_session (parse_twice sample_engine ''a.vcd'' ''a.vcd'' fresh_session sample_world))
       = Some [4, 1]"
  by (simp add: driver_defs sample_defs)

subsection \<open>C3: release of the input and the scanner\<close>

text \<open>
  C3 asks that on every exit path, the I/O failure included, the input be
  released and the scanner be destroyed before the outcome reaches the caller.
  The two returning paths do so (\<open>parse_file_Returned_frame\<close>). On the path
  \<^verbatim>\<open>missing.vcd\<close>, which cannot be opened, the process exits inside
  \<^verbatim>\<open>scan_begin\<close>: \<^verbatim>\<open>scan_end\<close> is never run, the scanner created by
  \<^verbatim>\<open>yylex_init\<close> (number 0) is still alive, and no outcome reaches the caller.
\<close>

theorem open_failure_skips_scan_end:
  "exit_status (parse_file sample_engine ''missing.vcd'' fresh_session sample_world)
     = Some EXIT_FAILURE
   \<and> returned_value (parse_file sample_engine ''missing.vcd'' fresh_session sample_world) = None
   \<and> scanner_alive 0 (parse_file sample_engine ''missing.vcd'' fresh_session sample_world)"
  by (simp add: driver_defs sample_defs)

subsection \<open>C4: grammar failure\<close>



subsection \<open>C6: the debug toggles\<close>

text \<open>
  C6: for every path, session and environment, and every setting of
  \<open>trace_scanning\<close> and \<open>trace_parsing\<close>, what \<^verbatim>\<open>parse_file\<close> hands to its
  caller (the pointer and the free store behind it, or the exit status) is what
  it hands over with both toggles off, given a grammar engine whose own debug
  levels only affect diagnostic output. The driver passes \<open>trace_scanning\<close> to
  \<^verbatim>\<open>yyset_debug\<close> and \<open>trace_parsing\<close> to \<^verbatim>\<open>set_debug_level\<close> and uses them
  nowhere else.
\<close>

theorem debug_toggles_keep_result:
  assumes "debug_only_diagnostics eng"
  shows "observe (parse_file eng p (s\<lparr> trace_scanning := a, trace_parsing := b \<rparr>) w)
       = observe (parse_file eng p (s\<lparr> trace_scanning := False, trace_parsing := False \<rparr>) w)"
proof (cases "p = [] \<or> p = ''-'' \<or> (\<exists>t. fs w p = Readable t)")
  case True
  let ?sa = "s\<lparr> trace_scanning := a, trace_parsing := b \<rparr>"
  let ?s0 = "s\<lparr> trace_scanning := False, trace_parsing := False \<rparr>"
  from True obtain tr s1 w1 where pa: "parse_prepare p ?sa w = Returned tr s1 w1"
    using parse_prepare_returns[of p w _ ?sa] by blast
  from True obtain tr0 s10 w10 where p0: "parse_prepare p ?s0 w = Returned tr0 s10 w10"
    using parse_prepare_returns[of p w _ ?s0] by blast
  note fa = parse_prepare_Returned[OF pa] prepare_scanner_text(1)[OF pa]
  note f0 = parse_prepare_Returned[OF p0] prepare_scanner_text(1)[OF p0]
  have tr: "tr0 = tr" using fa(1) f0(1) by simp
  have hp: "heap w10 = heap w1" using fa(9) f0(9) tr by simp
  have tx: "scanner_text s10 w10 = scanner_text s1 w1" using fa(11) f0(11) by simp
  have e1: "s10\<lparr> trace_scanning := a, trace_parsing := b \<rparr> = s1"
    and e2: "s10\<lparr> trace_scanning := False, trace_parsing := False \<rparr> = s10"
    using fa(2) f0(2) tr by simp_all
  note gen = assms[unfolded debug_only_diagnostics_def, rule_format]
  note inst = gen[where ds = a and dp = b and inp = "scanner_text s1 w1" and s = s10
        and h = "heap w1" and a = a and b = b, unfolded e1 e2]
  have ta: "trace_scanning ?sa = a" "trace_parsing ?sa = b"
    and t0: "trace_scanning ?s0 = False" "trace_parsing ?s0 = False"
    by simp_all
  show ?thesis
    using inst
    unfolding observe_parse_file[OF pa] observe_parse_file[OF p0] ta t0 tr tx hp
    by (auto split: prod.splits)
next
  case False
  then obtain e where e: "p \<noteq> []" "p \<noteq> ''-''" "fs w p = Unreadable e"
    by (cases "fs w p") auto
  show ?thesis
    using parse_prepare_exits[OF e, of "s\<lparr> trace_scanning := a, trace_parsing := b \<rparr>"]
          parse_prepare_exits[OF e, of "s\<lparr> trace_scanning := False, trace_parsing := False \<rparr>"]
    by (auto simp: parse_file_def)
qed

text \<open>
  C6 for the sample engine, which writes extra lines when a debug level is on:
  both toggles on against both toggles off, on \<^verbatim>\<open>a.vcd\<close>.
\<close>

theorem debug_toggles_keep_result_witness:
  "debug_only_diagnostics sample_engine
   \<and> observe (parse_file sample_engine ''a.vcd''
        (fresh_session\<lparr> trace_scanning := True, trace_parsing := True \<rparr>) sample_world)
     = observe (parse_file sample_engine ''a.vcd''
        (fresh_session\<lparr> trace_scanning := False, trace_parsing := False \<rparr>) sample_world)"
  using debug_toggles_keep_result[OF sample_engine_debug_only,
      where p = "''a.vcd''" and s = fresh_session and a = True and b = True and w = sample_world]
    sample_engine_debug_only
  by simp

subsection \<open>C7: standard input or a named file\<close>

text \<open>
  C7: called with the empty path or with \<^verbatim>\<open>-\<close>, \<^verbatim>\<open>parse_file\<close> starts the
  grammar engine with standard input as the scanner's input and opens no file;
  called with any other path that can be opened, it opens that file for reading
  and the scanner reads the file's text.
\<close>

theorem parse_file_input_source:
  "(p = [] \<or> p = ''-'' \<longrightarrow>
      (\<exists>tr s1 w1. parse_prepare p s w = Returned tr s1 w1
         \<and> input_file s1 = Some Stdin \<and> open_files w1 = open_files w
         \<and> scanner_text s1 w1 = stdin_text w))
   \<and> (p \<noteq> [] \<and> p \<noteq> ''-'' \<and> fs w p = Readable t \<longrightarrow>
      (\<exists>tr s1 w1. parse_prepare p s w = Returned tr s1 w1
         \<and> input_file s1 = Some (Handle (next_handle w))
         \<and> open_files w1 = (open_files w)(next_handle w \<mapsto> p)
         \<and> scanner_text s1 w1 = t))"
proof (intro conjI impI)
  assume a: "p = [] \<or> p = ''-''"
  then obtain tr s1 w1 where pp: "parse_prepare p s w = Returned tr s1 w1"
    using parse_prepare_returns[of p w undefined s] by blast
  show "\<exists>tr s1 w1. parse_prepare p s w = Returned tr s1 w1
         \<and> input_file s1 = Some Stdin \<and> open_files w1 = open_files w
         \<and> scanner_text s1 w1 = stdin_text w"
    using pp parse_prepare_Returned(2,4)[OF pp] prepare_scanner_text(1)[OF pp] a by auto
next
  assume a: "p \<noteq> [] \<and> p \<noteq> ''-'' \<and> fs w p = Readable t"
  then obtain tr s1 w1 where pp: "parse_prepare p s w = Returned tr s1 w1"
    using parse_prepare_returns[of p w t s] by blast
  show "\<exists>tr s1 w1. parse_prepare p s w = Returned tr s1 w1
         \<and> input_file s1 = Some (Handle (next_handle w))
         \<and> open_files w1 = (open_files w)(next_handle w \<mapsto> p)
         \<and> scanner_text s1 w1 = t"
    using pp parse_prepare_Returned(2,4)[OF pp] prepare_scanner_text(1)[OF pp] a by auto
qed

text \<open>C7 at the path \<^verbatim>\<open>-\<close> and at the readable file \<^verbatim>\<open>a.vcd\<close>.\<close>

theorem parse_file_input_source_witness:
  "(''-'' = [] \<or> ''-'' = ''-'')
   \<and> (\<exists>tr s1 w1. parse_prepare ''-'' fresh_session sample_world = Returned tr s1 w1
         \<and> input_file s1 = Some Stdin \<and> open_files w1 = open_files sample_world
         \<and> scanner_text s1 w1 = stdin_text sample_world)
   \<and> ''a.vcd'' \<noteq> [] \<and> ''a.vcd'' \<noteq> ''-''
   \<and> fs sample_world ''a.vcd'' = Readable ''$enddefinitions $end''
   \<and> (\<exists>tr s1 w1. parse_prepare ''a.vcd'' fresh_session sample_world = Returned tr s1 w1
         \<and> input_file s1 = Some (Handle (next_handle sample_world))
         \<and> open_files w1 = (open_files sample_world)(next_handle sample_world \<mapsto> ''a.vcd'')
         \<and> scanner_text s1 w1 = ''$enddefinitions $end'')"
  using parse_file_input_source[of "''-''" fresh_session sample_world "[]"]
    parse_file_input_source[of "''a.vcd''" fresh_session sample_world "''$enddefinitions $end''"]
  by (simp add: sample_world_def)

subsection \<open>C8: ownership on success\<close>

text \<open>
  C8: whenever the input could be opened and the grammar engine reports success
  (result code 0), \<^verbatim>\<open>parse_file\<close> returns the address of the Trace it
  allocated at the start of the call, the session's \<open>fh\<close> member is null when
  the call returns, and the free store is as the engine left it, so the Trace
  has not been deleted by the driver. (The engine must leave a scope on the
  stack for \<^verbatim>\<open>scopes.pop()\<close>.)
\<close>

theorem parse_file_success_hands_over:
  assumes "parse_prepare p s w = Returned tr s1 w1"
    and "parser_parse eng s1 w1 = (0, s2, w2)"
    and "scopes s2 \<noteq> []"
  shows "\<exists>s' w'. parse_file eng p s w = Returned (Some tr) s' w'
           \<and> fh s' = None \<and> heap w' = heap w2 \<and> tr = next_addr (heap w)"
proof -
  from parse_finish_nonempty[OF assms(3), of tr 0 w2] obtain s' w' where
    pf: "parse_finish tr 0 s2 w2 = Returned (Some tr) s' w'" by auto
  have "parse_file eng p s w = Returned (Some tr) s' w'"
    using assms(1,2) pf by (simp add: parse_file_def)
  moreover note parse_finish_Returned(6,7)[OF pf] parse_prepare_Returned(1)[OF assms(1)]
  ultimately show ?thesis by simp
qed

text \<open>C8 at the readable file \<^verbatim>\<open>a.vcd\<close>, which the sample engine accepts.\<close>

theorem parse_file_success_hands_over_witness:
  "\<exists>tr s1 w1 s2 w2.
     parse_prepare ''a.vcd'' fresh_session sample_world = Returned tr s1 w1
     \<and> parser_parse sample_engine s1 w1 = (0, s2, w2) \<and> scopes s2 \<noteq> []
     \<and> (\<exists>s' w'. parse_file sample_engine ''a.vcd'' fresh_session sample_world
                  = Returned (Some tr) s' w'
            \<and> fh s' = None \<and> heap w' = heap w2 \<and> tr = next_addr (heap sample_world))"
proof -
  obtain tr s1 w1 where
    pp: "parse_prepare ''a.vcd'' fresh_session sample_world = Returned tr s1 w1"
    using sample_prepare_a by blast
  obtain rc s2 w2 where pa: "parser_parse sample_engine s1 w1 = (rc, s2, w2)"
    by (cases "parser_parse sample_engine s1 w1")
  have tx: "scanner_text s1 w1 \<noteq> []"
    using prepare_scanner_text(1)[OF pp] by (simp add: sample_world_def)
  have rc: "rc = 0" and ne: "scopes s2 \<noteq> []"
    using sample_engine_rc[OF pa] tx parse_prepare_Returned(2)[OF pp] by simp_all
  from pa rc have pa0: "parser_parse sample_engine s1 w1 = (0, s2, w2)" by simp
  show ?thesis
    using pp pa0 ne parse_file_success_hands_over[OF pp pa0 ne] by blast
qed

subsection \<open>C9: the default retention window\<close>

text \<open>
  C9: for a \<^verbatim>\<open>VCDTime\<close> whose most negative representable number is the negation
  of its largest one (as for the floating-point types), a freshly constructed
  session has \<open>start_time\<close> at the most negative and \<open>end_time\<close> at the most
  positive representable time, and every representable time lies in the window
  between them.
\<close>

theorem default_window_is_everything:
  assumes "limits_lowest L = - limits_max L"
  shows "start_time (new_VCDFileParser L g) = limits_lowest L
       \<and> end_time (new_VCDFileParser L g) = limits_max L
       \<and> (\<forall>t. limits_lowest L \<le> t \<and> t \<le> limits_max L \<longrightarrow>
             start_time (new_VCDFileParser L g) \<le> t \<and> t \<le> end_time (new_VCDFileParser L g))"
  using assms by (simp add: new_VCDFileParser_def)

text \<open>
  C9 at the limits of a double: the two bounds, and the window at the time points
  0 and \<open>- max\<close>.
\<close>

theorem default_window_is_everything_witness:
  "limits_lowest double_limits = - limits_max double_limits
   \<and> start_time (new_VCDFileParser double_limits None) = limits_lowest double_limits
   \<and> end_time (new_VCDFileParser double_limits None) = limits_max double_limits
   \<and> limits_lowest double_limits \<le> 0 \<and> 0 \<le> limits_max double_limits
   \<and> start_time (new_VCDFileParser double_limits None) \<le> 0
   \<and> 0 \<le> end_time (new_VCDFileParser double_limits None)
   \<and> start_time (new_VCDFileParser double_limits None) \<le> limits_lowest double_limits
   \<and> limits_lowest double_limits \<le> end_time (new_VCDFileParser double_limits None)"
proof -
  have sym: "limits_lowest double_limits = - limits_max double_limits"
    by (simp add: double_limits_def)
  have pos: "limits_lowest double_limits \<le> 0 \<and> 0 \<le> limits_max double_limits"
    by (simp add: double_limits_def)
  have neg: "limits_lowest double_limits \<le> limits_lowest double_limits
             \<and> limits_lowest double_limits \<le> limits_max double_limits"
    by (simp add: double_limits_def)
  note w = default_window_is_everything[OF sym, of None]
  from w have all: "\<forall>t. limits_lowest double_limits \<le> t \<and> t \<le> limits_max double_limits \<longrightarrow>
             start_time (new_VCDFileParser double_limits None) \<le> t
             \<and> t \<le> end_time (new_VCDFileParser double_limits None)"
    by blast
  from all pos have "start_time (new_VCDFileParser double_limits None) \<le> 0
             \<and> 0 \<le> end_time (new_VCDFileParser double_limits None)"
    by blast
  moreover from all neg have
    "start_time (new_VCDFileParser double_limits None) \<le> limits_lowest double_limits
     \<and> limits_lowest double_limits \<le> end_time (new_VCDFileParser double_limits None)"
    by blast
  ultimately show ?thesis using sym pos w by blast
qed

subsection \<open>C10: standard input is not closed\<close>

text \<open>
  C10: every call of \<^verbatim>\<open>scan_end\<close> nulls \<open>input_file\<close>, destroys the scanner and
  nulls \<open>scanner\<close>, and leaves standard input open as it was; it closes the
  input handle exactly when it is a named file. Hence after any returning parse
  whose path was empty or \<^verbatim>\<open>-\<close>, standard input is as open as before the call
  and no other handle has been touched.
\<close>

theorem scan_end_spares_stdin:
  "(scan_end s w = (s', w') \<longrightarrow>
      input_file s' = None \<and> scanner s' = None
      \<and> (\<forall>k. scanner s = Some k \<longrightarrow> scanners w' k = None)
      \<and> stdin_open w' = stdin_open w
      \<and> (input_file s = Some Stdin \<longrightarrow> open_files w' = open_files w)
      \<and> (\<forall>n. input_file s = Some (Handle n) \<longrightarrow> open_files w' = (open_files w)(n := None)))
   \<and> ((p = [] \<or> p = ''-'') \<and> parse_file eng p s0 w0 = Returned r s1 w1 \<longrightarrow>
      stdin_open w1 = stdin_open w0 \<and> open_files w1 = open_files w0
      \<and> input_file s1 = None \<and> scanner s1 = None)"
proof (rule conjI)
  show "scan_end s w = (s', w') \<longrightarrow>
      input_file s' = None \<and> scanner s' = None
      \<and> (\<forall>k. scanner s = Some k \<longrightarrow> scanners w' k = None)
      \<and> stdin_open w' = stdin_open w
      \<and> (input_file s = Some Stdin \<longrightarrow> open_files w' = open_files w)
      \<and> (\<forall>n. input_file s = Some (Handle n) \<longrightarrow> open_files w' = (open_files w)(n := None))"
  proof
    assume h: "scan_end s w = (s', w')"
    show "input_file s' = None \<and> scanner s' = None
      \<and> (\<forall>k. scanner s = Some k \<longrightarrow> scanners w' k = None)
      \<and> stdin_open w' = stdin_open w
      \<and> (input_file s = Some Stdin \<longrightarrow> open_files w' = open_files w)
      \<and> (\<forall>n. input_file s = Some (Handle n) \<longrightarrow> open_files w' = (open_files w)(n := None))"
      using scan_end_session[OF h] scan_end_scanners[OF h] scan_end_world[OF h] by auto
  qed
next
  show "(p = [] \<or> p = ''-'') \<and> parse_file eng p s0 w0 = Returned r s1 w1 \<longrightarrow>
      stdin_open w1 = stdin_open w0 \<and> open_files w1 = open_files w0
      \<and> input_file s1 = None \<and> scanner s1 = None"
  proof
    assume h: "(p = [] \<or> p = ''-'') \<and> parse_file eng p s0 w0 = Returned r s1 w1"
    then have pf: "parse_file eng p s0 w0 = Returned r s1 w1" by simp
    show "stdin_open w1 = stdin_open w0 \<and> open_files w1 = open_files w0
      \<and> input_file s1 = None \<and> scanner s1 = None"
      using parse_file_Returned_frame[OF pf] h by simp
  qed
qed

text \<open>
  C10 on the session that \<^verbatim>\<open>scan_begin\<close> leaves for the path \<^verbatim>\<open>-\<close>, and on a
  whole parse of standard input.
\<close>

theorem scan_end_spares_stdin_witness:
  "input_file (fst scanning_stdin) = Some Stdin
   \<and> scanner (fst scanning_stdin) = Some 0
   \<and> scanners (snd scanning_stdin) 0 \<noteq> None
   \<and> input_file (fst (scan_end (fst scanning_stdin) (snd scanning_stdin))) = None
   \<and> scanner (fst (scan_end (fst scanning_stdin) (snd scanning_stdin))) = None
   \<and> scanners (snd (scan_end (fst scanning_stdin) (snd scanning_stdin))) 0 = None
   \<and> stdin_open (snd (scan_end (fst scanning_stdin) (snd scanning_stdin)))
   \<and> (\<exists>s1 w1. parse_file sample_engine ''-'' fresh_session sample_world = Returned (Some 0) s1 w1
         \<and> stdin_open w1 \<and> open_files w1 = open_files sample_world
         \<and> input_file s1 = None \<and> scanner s1 = None)"
proof -
  have a: "input_file (fst scanning_stdin) = Some Stdin"
    "scanner (fst scanning_stdin) = Some 0"
    "scanners (snd scanning_stdin) 0 \<noteq> None"
    "stdin_open (snd scanning_stdin)"
    by (simp_all add: scanning_stdin_def driver_defs sample_defs)
  obtain s1 w1 where
    h: "parse_file sample_engine ''-'' fresh_session sample_world = Returned (Some 0) s1 w1"
    using returned_value_Some[OF sample_stdin_returns] by blast
  have so: "stdin_open sample_world" by (simp add: sample_world_def)
  show ?thesis
    using a h so
      scan_end_spares_stdin[of "fst scanning_stdin" "snd scanning_stdin"
        "fst (scan_end (fst scanning_stdin) (snd scanning_stdin))"
        "snd (scan_end (fst scanning_stdin) (snd scanning_stdin))"
        "''-''" sample_engine fresh_session sample_world "Some 0" s1 w1]
    by simp
qed

end
